theory Spec2Isabelle
  imports Complex_Main "HOL-Library.AList"
begin

section \<open>Python values held by the financial tables\<close>

text \<open>
  A cell of a table or an entry of a dict is \<open>None\<close>, the float NaN, or a scalar that
  \<open>pd.isna\<close> does not report as missing. A finite float is modelled by the real number
  it denotes, so float arithmetic is exact in this development (no rounding, no
  infinities). \<open>SText s\<close> is a \<open>str\<close> whose content \<open>s\<close> is not a numeric literal.
\<close>

datatype pyexc = TypeError | ValueError | OverflowError | KeyError

datatype scalar = SFloat real | SInt int | SText string

datatype pyval = PNone | PNaN | PVal scalar

text \<open>
  The builtin \<open>float(v)\<close> on a scalar. A float is returned as it is, an \<open>int\<close> is
  converted unless it is too large for a double (from \<open>2^1024 - 2^970\<close> on, where
  rounding to nearest leaves the range), and non-numeric text is rejected.
\<close>

fun py_float :: "scalar \<Rightarrow> pyexc + real" where
  "py_float (SFloat x) = Inr x"
| "py_float (SInt n) =
     (if \<bar>n\<bar> < 2 ^ 1024 - 2 ^ 970 then Inr (real_of_int n) else Inl OverflowError)"
| "py_float (SText s) = Inl ValueError"

text \<open>
  A dict, and a pandas Series, is the list of its (key, value) entries in order; keys are
  unique. \<open>period_data.get(key)\<close> yields \<open>None\<close> for a key that is not there.
\<close>

type_synonym series = "(string \<times> pyval) list"

definition series_get :: "series \<Rightarrow> string \<Rightarrow> pyval" where
  "series_get period_data key = (case map_of period_data key of None \<Rightarrow> PNone | Some v \<Rightarrow> v)"

section \<open>Consistency verifier (src/analysis/verifier.py)\<close>

text \<open>
  The argument of \<open>verify_financial_consistency\<close>: \<open>None\<close>, a dict or a Series.
\<close>

datatype period_input = NoInput | DictInput series | SeriesInput series

text \<open>
  A report value is \<open>True\<close> (\<open>Passed\<close>) or a string; the strings are kept structured:
  \<open>Failed\<close> with the numbers the message prints, \<open>Skipped\<close> with the names the
  message lists.
\<close>

datatype detail = Mismatch real real real | NegativeCash real | NoData string

datatype check_result = Passed | Failed detail | Skipped "string list"

type_synonym report = "(string \<times> check_result) list"

text \<open>
  \<open>_get_float\<close>: a missing key, \<open>None\<close>, NaN and every exception of \<open>float\<close>
  (the handler's last clause is \<open>except Exception\<close>) give \<open>None\<close>.
\<close>

definition get_float :: "series \<Rightarrow> string \<Rightarrow> real option" where
  "get_float period_data key =
     (case series_get period_data key of
        PNone \<Rightarrow> None
      | PNaN \<Rightarrow> None
      | PVal s \<Rightarrow> (case py_float s of Inl e \<Rightarrow> None | Inr x \<Rightarrow> Some x))"

text \<open>
  \<open>math.isclose(a, b, rel_tol, abs_tol)\<close> on finite floats, as CPython computes it.
\<close>

definition isclose :: "real \<Rightarrow> real \<Rightarrow> real \<Rightarrow> real \<Rightarrow> bool" where
  "isclose a b rel_tol abs_tol =
     (if a = b then True
      else (let diff = \<bar>b - a\<bar>
            in diff \<le> \<bar>rel_tol * b\<bar> \<or> diff \<le> \<bar>rel_tol * a\<bar> \<or> diff \<le> abs_tol))"

text \<open>\<open>[k for k, v in required.items() if v is None]\<close>\<close>

fun missing_keys :: "(string \<times> real option) list \<Rightarrow> string list" where
  "missing_keys [] = []"
| "missing_keys ((k, v) # rest) =
     (case v of None \<Rightarrow> k # missing_keys rest | Some x \<Rightarrow> missing_keys rest)"

definition balance_sheet_eq :: "series \<Rightarrow> check_result" where
  "balance_sheet_eq period_data =
     (let assets = get_float period_data ''total_assets'';
          liabs = get_float period_data ''total_liabilities'';
          equity = get_float period_data ''total_equity''
      in case (assets, liabs, equity) of
           (Some a, Some l, Some e) \<Rightarrow>
             (if isclose a (l + e) 0.015 0 then Passed
              else Failed (Mismatch a (l + e) (a - (l + e))))
         | _ \<Rightarrow> Skipped (missing_keys [(''Total Assets'', assets),
                  (''Total Liabilities'', liabs), (''Total Equity'', equity)]))"

definition cash_check :: "series \<Rightarrow> check_result" where
  "cash_check period_data =
     (case get_float period_data ''cash'' of
        Some cash \<Rightarrow> (if cash \<ge> - (1 / 1000000) then Passed else Failed (NegativeCash cash))
      | None \<Rightarrow> Skipped [''Cash''])"

definition gross_profit_check :: "series \<Rightarrow> check_result" where
  "gross_profit_check period_data =
     (let revenue = get_float period_data ''revenue'';
          cogs = get_float period_data ''cost_of_revenue'';
          gp = get_float period_data ''gross_profit''
      in case (revenue, cogs, gp) of
           (Some r, Some c, Some g) \<Rightarrow>
             (if isclose g (r - c) 0.01 0 then Passed
              else Failed (Mismatch g (r - c) (g - (r - c))))
         | _ \<Rightarrow> Skipped (missing_keys [(''Revenue'', revenue),
                  (''Cost of Revenue'', cogs), (''Gross Profit'', gp)]))"

text \<open>Python's \<open>x or 0.0\<close> on an optional float: \<open>None\<close> and zero both give zero.\<close>

definition or_zero :: "real option \<Rightarrow> real" where
  "or_zero x = (case x of None \<Rightarrow> 0 | Some v \<Rightarrow> (if v = 0 then 0 else v))"

text \<open>
  The operating expenses of check 4: the direct item, or else R&D + SG&A when one of
  the two is there.
\<close>

definition op_ex_total :: "series \<Rightarrow> real option" where
  "op_ex_total period_data =
     (case get_float period_data ''operating_expenses'' of
        Some x \<Rightarrow> Some x
      | None \<Rightarrow>
          (let rd = get_float period_data ''research_development'';
               sga = get_float period_data ''selling_general_administrative''
           in case (rd, sga) of
                (None, None) \<Rightarrow> None
              | _ \<Rightarrow> Some (or_zero rd + or_zero sga)))"

definition operating_income_check :: "series \<Rightarrow> check_result" where
  "operating_income_check period_data =
     (let op_inc = get_float period_data ''operating_income'';
          gp = get_float period_data ''gross_profit'';
          opex = op_ex_total period_data
      in case (gp, op_inc, opex) of
           (Some g, Some oi, Some ox) \<Rightarrow>
             (if isclose oi (g - ox) 0.05 0 then Passed
              else Failed (Mismatch oi (g - ox) (oi - (g - ox))))
         | _ \<Rightarrow> Skipped (missing_keys [(''Gross Profit'', gp), (''Operating Income'', op_inc)]
                  @ (case opex of None \<Rightarrow> [''Operating Expenses (Total or Components)'']
                     | Some x \<Rightarrow> [])))"

definition net_income_check :: "series \<Rightarrow> check_result" where
  "net_income_check period_data =
     (let ni = get_float period_data ''net_income'';
          ibt = get_float period_data ''income_before_tax'';
          tax = get_float period_data ''income_tax_expense''
      in case (ni, ibt, tax) of
           (Some n, Some i, Some t) \<Rightarrow>
             (if isclose n (i - t) 0.015 0 then Passed
              else Failed (Mismatch n (i - t) (n - (i - t))))
         | _ \<Rightarrow> Skipped (missing_keys [(''Net Income'', ni),
                  (''Income Before Tax'', ibt), (''Income Tax Expense'', tax)]))"

definition cash_flow_sum_check :: "series \<Rightarrow> check_result" where
  "cash_flow_sum_check period_data =
     (let change_cash = get_float period_data ''change_in_cash'';
          op_cf = get_float period_data ''operating_cash_flow'';
          inv_cf = get_float period_data ''investing_cash_flow'';
          fin_cf = get_float period_data ''financing_cash_flow''
      in case (change_cash, op_cf, inv_cf, fin_cf) of
           (Some cc, Some oc, Some ic, Some fc) \<Rightarrow>
             (if isclose cc (oc + ic + fc) 0.02 1000 then Passed
              else Failed (Mismatch cc (oc + ic + fc) (cc - (oc + ic + fc))))
         | _ \<Rightarrow> Skipped (missing_keys [(''Change in Cash'', change_cash),
                  (''Operating CF'', op_cf), (''Investing CF'', inv_cf),
                  (''Financing CF'', fin_cf)]))"

text \<open>The six checks on a period that passed input validation, in the order they run.\<close>

definition run_checks :: "series \<Rightarrow> report" where
  "run_checks period_data =
     [(''BalanceSheetEq'', balance_sheet_eq period_data),
      (''CashCheck'', cash_check period_data),
      (''GrossProfitCheck'', gross_profit_check period_data),
      (''OperatingIncomeCheck'', operating_income_check period_data),
      (''NetIncomeCheck'', net_income_check period_data),
      (''CashFlowSumCheck'', cash_flow_sum_check period_data)]"

fun verify_financial_consistency :: "period_input \<Rightarrow> report" where
  "verify_financial_consistency NoInput =
     [(''InputValidation'', Failed (NoData ''No data received for period.''))]"
| "verify_financial_consistency (DictInput d) =
     (if d = [] then [(''InputValidation'', Failed (NoData ''Empty data dictionary received.''))]
      else run_checks d)"
| "verify_financial_consistency (SeriesInput s) =
     (if s = [] then [(''InputValidation'', Failed (NoData ''Empty data Series received.''))]
      else run_checks s)"

text \<open>The names of the six fixed checks.\<close>

definition check_names :: "string list" where
  "check_names = [''BalanceSheetEq'', ''CashCheck'', ''GrossProfitCheck'',
     ''OperatingIncomeCheck'', ''NetIncomeCheck'', ''CashFlowSumCheck'']"

section \<open>Ratio engine (src/analysis/ratios.py)\<close>

text \<open>An exception raised by one statement ends the function: the rest is not run.\<close>

definition exc_bind :: "pyexc + 'a \<Rightarrow> ('a \<Rightarrow> pyexc + 'b) \<Rightarrow> pyexc + 'b" where
  "exc_bind m f = (case m of Inl e \<Rightarrow> Inl e | Inr x \<Rightarrow> f x)"

text \<open>
  \<open>_safe_division\<close>. Its callers pass floats or \<open>None\<close>, on which the two \<open>float\<close>
  calls are the identity.
\<close>

definition safe_division :: "real option \<Rightarrow> real option \<Rightarrow> real option" where
  "safe_division numerator denominator =
     (case (numerator, denominator) of
        (Some num_f, Some den_f) \<Rightarrow> (if den_f = 0 then None else Some (num_f / den_f))
      | _ \<Rightarrow> None)"

text \<open>
  \<open>_get\<close> of \<open>calculate_single_period_ratios\<close>: the handlers are
  \<open>except (TypeError, ValueError)\<close> and \<open>except KeyError\<close>; any other exception of
  \<open>float\<close> leaves the function.
\<close>

definition ratios_get :: "series \<Rightarrow> string \<Rightarrow> pyexc + real option" where
  "ratios_get period_data key =
     (case series_get period_data key of
        PNone \<Rightarrow> Inr None
      | PNaN \<Rightarrow> Inr None
      | PVal s \<Rightarrow>
          (case py_float s of
             Inr x \<Rightarrow> Inr (Some x)
           | Inl e \<Rightarrow>
               (case e of
                  TypeError \<Rightarrow> Inr None
                | ValueError \<Rightarrow> Inr None
                | KeyError \<Rightarrow> Inr None
                | OverflowError \<Rightarrow> Inl OverflowError)))"

definition quick_assets_numerator :: "real option \<Rightarrow> real option \<Rightarrow> real option" where
  "quick_assets_numerator ca invt =
     (case (ca, invt) of (Some c, Some i) \<Rightarrow> Some (c - i) | _ \<Rightarrow> None)"

definition total_debt :: "real option \<Rightarrow> real option \<Rightarrow> real option" where
  "total_debt std ltd =
     (case (std, ltd) of (None, None) \<Rightarrow> None | _ \<Rightarrow> Some (or_zero std + or_zero ltd))"

definition capital_employed_denominator :: "real option \<Rightarrow> real option \<Rightarrow> real option" where
  "capital_employed_denominator assets cl =
     (case (assets, cl) of (Some a, Some c) \<Rightarrow> Some (a - c) | _ \<Rightarrow> None)"

text \<open>
  The final cleanup \<open>v if pd.notna(v) and isinstance(v, (int, float)) else None\<close>.
\<close>

definition cleaned :: "real option \<Rightarrow> real option" where
  "cleaned v = (case v of None \<Rightarrow> None | Some x \<Rightarrow> Some x)"

type_synonym ratios = "(string \<times> real option) list"

text \<open>The fourteen ratios from the fifteen items read (\<open>cash\<close> is read and not used).\<close>

definition compute_ratios ::
  "real option \<Rightarrow> real option \<Rightarrow> real option \<Rightarrow> real option \<Rightarrow> real option \<Rightarrow>
   real option \<Rightarrow> real option \<Rightarrow> real option \<Rightarrow> real option \<Rightarrow> real option \<Rightarrow>
   real option \<Rightarrow> real option \<Rightarrow> real option \<Rightarrow> real option \<Rightarrow> ratios" where
  "compute_ratios gp revn ni oi ca cl invt std ltd equity liab assets cogs ar =
     [(''Gross Margin'', safe_division gp revn),
      (''Net Margin'', safe_division ni revn),
      (''Operating Margin'', safe_division oi revn),
      (''Current Ratio'', safe_division ca cl),
      (''Quick Ratio'', safe_division (quick_assets_numerator ca invt) cl),
      (''Debt to Equity'', safe_division (total_debt std ltd) equity),
      (''Liabilities to Equity'', safe_division liab equity),
      (''Debt Ratio'', safe_division (total_debt std ltd) assets),
      (''Return on Equity (ROE)'', safe_division ni equity),
      (''Return on Assets (ROA)'', safe_division ni assets),
      (''Return on Capital Employed (ROCE)'',
         safe_division oi (capital_employed_denominator assets cl)),
      (''Inventory Turnover'', safe_division cogs invt),
      (''Asset Turnover'', safe_division revn assets),
      (''Receivable Turnover'', safe_division revn ar)]"

definition calculate_single_period_ratios :: "series \<Rightarrow> pyexc + ratios" where
  "calculate_single_period_ratios period_data =
     exc_bind (ratios_get period_data ''gross_profit'') (\<lambda>gp.
     exc_bind (ratios_get period_data ''revenue'') (\<lambda>revn.
     exc_bind (ratios_get period_data ''net_income'') (\<lambda>ni.
     exc_bind (ratios_get period_data ''operating_income'') (\<lambda>oi.
     exc_bind (ratios_get period_data ''current_assets'') (\<lambda>ca.
     exc_bind (ratios_get period_data ''current_liabilities'') (\<lambda>cl.
     exc_bind (ratios_get period_data ''cash'') (\<lambda>cash.
     exc_bind (ratios_get period_data ''inventory'') (\<lambda>invt.
     exc_bind (ratios_get period_data ''short_term_debt'') (\<lambda>std.
     exc_bind (ratios_get period_data ''long_term_debt'') (\<lambda>ltd.
     exc_bind (ratios_get period_data ''total_equity'') (\<lambda>equity.
     exc_bind (ratios_get period_data ''total_liabilities'') (\<lambda>liab.
     exc_bind (ratios_get period_data ''total_assets'') (\<lambda>assets.
     exc_bind (ratios_get period_data ''cost_of_revenue'') (\<lambda>cogs.
     exc_bind (ratios_get period_data ''accounts_receivable'') (\<lambda>ar.
       Inr (map (\<lambda>(k, v). (k, cleaned v))
              (compute_ratios gp revn ni oi ca cl invt std ltd equity liab assets cogs
                 ar)))))))))))))))))"

text \<open>
  A reporting period is the calendar day of its Timestamp (the day number). A float
  DataFrame is the list of its columns in column order, each with its label and its
  Series of (row label, cell); a NaN cell is \<open>None\<close>. All columns have the same row
  labels.
\<close>

type_synonym period = nat

type_synonym matrix = "(period \<times> (string \<times> real option) list) list"

text \<open>\<open>df.empty\<close>: no column or no row.\<close>

definition df_empty :: "('c \<times> 'r list) list \<Rightarrow> bool" where
  "df_empty m = (case m of [] \<Rightarrow> True | (c, col) # rest \<Rightarrow> col = [])"

text \<open>\<open>standardized_data[period_col]\<close>: the column as a Series of float cells.\<close>

definition series_of_column :: "(string \<times> real option) list \<Rightarrow> series" where
  "series_of_column col =
     map (\<lambda>(k, c). (k, case c of None \<Rightarrow> PNaN | Some x \<Rightarrow> PVal (SFloat x))) col"

text \<open>
  The loop over the columns, filling the dict \<open>all_ratios_by_period\<close>.
\<close>

fun ratios_by_period ::
  "matrix \<Rightarrow> (period \<times> ratios) list \<Rightarrow> pyexc + (period \<times> ratios) list" where
  "ratios_by_period [] all_ratios_by_period = Inr all_ratios_by_period"
| "ratios_by_period ((period_col, col) # rest) all_ratios_by_period =
     (case calculate_single_period_ratios (series_of_column col) of
        Inl e \<Rightarrow> Inl e
      | Inr period_ratios \<Rightarrow>
          ratios_by_period rest
            (if period_ratios = [] then all_ratios_by_period
             else AList.update period_col period_ratios all_ratios_by_period))"

text \<open>
  \<open>pd.DataFrame.from_dict(all_ratios_by_period, orient='columns')\<close> followed by
  \<open>reindex(columns=standardized_data.columns)\<close>: the columns in the order asked for;
  a column the dict does not have would be all NaN over the row labels, which are the
  ratio names (every dict has the same ones).
\<close>

definition reindex_columns :: "(period \<times> ratios) list \<Rightarrow> period list \<Rightarrow> (period \<times> ratios) list" where
  "reindex_columns all_ratios_by_period cols =
     map (\<lambda>p. (p, case map_of all_ratios_by_period p of
                     Some r \<Rightarrow> r
                   | None \<Rightarrow> map (\<lambda>k. (k, None))
                       (case all_ratios_by_period of [] \<Rightarrow> [] | (q, r) # rest \<Rightarrow> map fst r)))
       cols"

definition calculate_historical_ratios ::
  "matrix option \<Rightarrow> pyexc + (period \<times> ratios) list option" where
  "calculate_historical_ratios standardized_data =
     (case standardized_data of
        None \<Rightarrow> Inr None
      | Some m \<Rightarrow>
          (if df_empty m then Inr None
           else (case ratios_by_period m [] of
                   Inl e \<Rightarrow> Inl e
                 | Inr all_ratios_by_period \<Rightarrow>
                     (if all_ratios_by_period = [] then Inr None
                      else Inr (Some (reindex_columns all_ratios_by_period (map fst m)))))))"

section \<open>Normalizer (src/data_extraction/mapper.py, src/utils/constants.py)\<close>

definition FINANCIAL_ITEM_MAPPING :: "(string \<times> string list) list" where
  "FINANCIAL_ITEM_MAPPING =
    [(''revenue'', [''Total Revenue'', ''Revenue'', ''totalRevenue'']),
     (''cost_of_revenue'', [''Cost Of Revenue'', ''Cost of Revenue'', ''costOfRevenue'']),
     (''gross_profit'', [''Gross Profit'', ''grossProfit'']),
     (''research_development'', [''Research Development'', ''researchDevelopmentExpense'']),
     (''selling_general_administrative'',
        [''Selling General Administrative'', ''Selling General and Administrative'',
         ''sellingGeneralAdministrative'', ''sellingGeneralAndAdministrative'']),
     (''operating_expenses'',
        [''Operating Expenses'', ''Total Operating Expenses'', ''totalOperatingExpenses'',
         ''OperatingExpenditures'', ''Total Operating Expenditures'']),
     (''operating_income'',
        [''Operating Income'', ''Operating Income or Loss'', ''operatingIncome'']),
     (''interest_expense'', [''Interest Expense'', ''interestExpense'']),
     (''income_before_tax'', [''Income Before Tax'', ''Pretax Income'', ''incomeBeforeTax'']),
     (''income_tax_expense'', [''Income Tax Expense'', ''Tax Provision'', ''incomeTaxExpense'']),
     (''net_income'',
        [''Net Income'', ''Net Income Applicable To Common Shares'', ''netIncome'',
         ''netIncomeApplicableToCommonShares'']),
     (''cash'', [''Cash'', ''Cash And Cash Equivalents'', ''cashAndCashEquivalents'']),
     (''accounts_receivable'', [''Net Receivables'', ''Accounts Receivable'']),
     (''inventory'', [''Inventory'', ''inventory'']),
     (''current_assets'', [''Total Current Assets'', ''Current Assets'', ''totalCurrentAssets'']),
     (''property_plant_equipment'',
        [''Property Plant Equipment Net'', ''Total Property Plant Equipment'',
         ''Property plant and equipment net'']),
     (''total_assets'', [''Total Assets'', ''totalAssets'']),
     (''accounts_payable'', [''Accounts Payable'']),
     (''short_term_debt'',
        [''Short Long Term Debt'', ''Short Term Debt'', ''Current Debt'',
         ''Current Liabilities And Long Term Debt'']),
     (''current_liabilities'',
        [''Total Current Liabilities'', ''Current Liabilities'', ''totalCurrentLiabilities'']),
     (''long_term_debt'', [''Long Term Debt'', ''longTermDebt'']),
     (''total_liabilities'',
        [''Total Liab'', ''Total Liabilities'', ''totalLiab'',
         ''Total Liabilities Net Minority Interest'']),
     (''common_stock'', [''Common Stock'', ''commonStock'']),
     (''retained_earnings'', [''Retained Earnings'', ''retainedEarnings'']),
     (''total_equity'',
        [''Total Stockholder Equity'', ''Stockholders Equity'', ''Total Equity'',
         ''totalStockholderEquity'']),
     (''depreciation_amortization'',
        [''Depreciation And Amortization'', ''Depreciation & Amortization'', ''Depreciation'']),
     (''operating_cash_flow'',
        [''Total Cash From Operating Activities'', ''Cash Flow From Operating Activities'',
         ''totalCashFromOperatingActivities'']),
     (''capital_expenditures'', [''Capital Expenditures'', ''capex'']),
     (''investing_cash_flow'',
        [''Total Cashflows From Investing Activities'', ''Cash Flow From Investing Activities'',
         ''totalCashflowsFromInvestingActivities'']),
     (''dividends_paid'', [''Dividends Paid'', ''dividendsPaid'']),
     (''issuance_of_stock'', [''Issuance Of Stock'', ''Issuance of Common Stock'']),
     (''repurchase_of_stock'',
        [''Repurchase Of Stock'', ''Repurchase of Common Stock'', ''Treasury Stock'']),
     (''financing_cash_flow'',
        [''Total Cash From Financing Activities'', ''Cash Flow From Financing Activities'',
         ''totalCashFromFinancingActivities'']),
     (''change_in_cash'', [''Change In Cash'', ''Net Change In Cash'', ''changeInCash'']),
     (''liabilities_and_equity'', [''Total Liabilities And Stockholders Equity''])]"

text \<open>
  A raw statement table, with distinct column labels. \<open>datetime_columns\<close> says whether \<open>df.columns\<close> is a
  \<open>DatetimeIndex\<close> already. A column label is \<open>Some day\<close> for a Timestamp and \<open>None\<close>
  for a label that is not one (\<open>NaT\<close>); for a table whose labels are not dates yet, it
  is what \<open>pd.to_datetime(df.columns, errors='coerce')\<close> makes of the label. The
  period key \<open>strftime('%Y-%m-%d')\<close> is the day.
\<close>

record raw_table =
  datetime_columns :: bool
  table_columns :: "(period option \<times> series) list"

type_synonym statements = "(string \<times> raw_table option) list"

text \<open>The raw bag of one period: \<open>all_period_data[period_str]['raw']\<close>, vendor label to
  value. A period whose dict has no \<open>'raw'\<close> entry yet has the empty bag; the code
  reads it with \<open>period_contents.get('raw', {})\<close>.\<close>

type_synonym bag = "(string \<times> scalar) list"

text \<open>
  The loop over the rows of one column (\<open>for yf_key, value_raw in period_series.items()\<close>):
  a value that is not NA is stored with \<open>raw[yf_key] = value_raw\<close>.
\<close>

fun store_items :: "bag \<Rightarrow> series \<Rightarrow> bag" where
  "store_items raw [] = raw"
| "store_items raw ((yf_key, value_raw) # rest) =
     store_items
       (case value_raw of
          PNone \<Rightarrow> raw
        | PNaN \<Rightarrow> raw
        | PVal s \<Rightarrow> AList.update yf_key s raw)
       rest"

text \<open>
  The loop over the columns of one statement; a label that is not a Timestamp is skipped.
\<close>

fun store_columns :: "(period \<times> bag) list \<Rightarrow> (period option \<times> series) list \<Rightarrow> (period \<times> bag) list" where
  "store_columns all_period_data [] = all_period_data"
| "store_columns all_period_data ((None, period_series) # rest) =
     store_columns all_period_data rest"
| "store_columns all_period_data ((Some period_col, period_series) # rest) =
     store_columns
       (AList.update period_col
          (store_items
             (case map_of all_period_data period_col of None \<Rightarrow> [] | Some raw \<Rightarrow> raw)
             period_series)
          all_period_data)
       rest"

text \<open>\<open>df.dropna(axis=1, how='all')\<close>: the columns with a value that is not NA.\<close>

definition dropna_columns :: "(period option \<times> series) list \<Rightarrow> (period option \<times> series) list" where
  "dropna_columns cols =
     filter (\<lambda>(c, col). list_ex (\<lambda>(k, v). case v of PVal s \<Rightarrow> True | _ \<Rightarrow> False) col) cols"

text \<open>The loop over the statements.\<close>

fun merge_statements :: "statements \<Rightarrow> (period \<times> bag) list \<Rightarrow> (period \<times> bag) list" where
  "merge_statements [] all_period_data = all_period_data"
| "merge_statements ((stmt_type, None) # rest) all_period_data =
     merge_statements rest all_period_data"
| "merge_statements ((stmt_type, Some df) # rest) all_period_data =
     (if df_empty (table_columns df) then merge_statements rest all_period_data
      else if datetime_columns df then
        merge_statements rest (store_columns all_period_data (table_columns df))
      else if df_empty (dropna_columns (table_columns df)) then
        merge_statements rest all_period_data
      else
        merge_statements rest (store_columns all_period_data (dropna_columns (table_columns df))))"

text \<open>
  The scan of one synonym list (\<open>for yf_key in potential_yf_keys\<close>), which breaks at
  the first label that is in the bag.
\<close>

fun first_present :: "bag \<Rightarrow> string list \<Rightarrow> (string \<times> scalar) option" where
  "first_present raw [] = None"
| "first_present raw (yf_key # rest) =
     (case map_of raw yf_key of
        Some value_raw \<Rightarrow> Some (yf_key, value_raw)
      | None \<Rightarrow> first_present raw rest)"

text \<open>
  The value of one standard key: the handler of the conversion is
  \<open>except (ValueError, TypeError)\<close>, which logs and goes on.
\<close>

definition standardize_key :: "bag \<Rightarrow> string list \<Rightarrow> pyexc + real option" where
  "standardize_key raw potential_yf_keys =
     (case first_present raw potential_yf_keys of
        None \<Rightarrow> Inr None
      | Some (used_yfinance_key, found_value_raw) \<Rightarrow>
          (case py_float found_value_raw of
             Inr float_value \<Rightarrow> Inr (Some float_value)
           | Inl e \<Rightarrow>
               (case e of
                  ValueError \<Rightarrow> Inr None
                | TypeError \<Rightarrow> Inr None
                | OverflowError \<Rightarrow> Inl OverflowError
                | KeyError \<Rightarrow> Inl KeyError)))"

text \<open>The loop over the mapping, giving \<open>standardized_dict_for_period\<close>.\<close>

fun standardize_items :: "bag \<Rightarrow> (string \<times> string list) list \<Rightarrow> pyexc + (string \<times> real) list" where
  "standardize_items raw [] = Inr []"
| "standardize_items raw ((standard_key, potential_yf_keys) # rest) =
     (case standardize_key raw potential_yf_keys of
        Inl e \<Rightarrow> Inl e
      | Inr r \<Rightarrow>
          (case standardize_items raw rest of
             Inl e \<Rightarrow> Inl e
           | Inr d \<Rightarrow> Inr (case r of None \<Rightarrow> d | Some float_value \<Rightarrow> (standard_key, float_value) # d)))"

text \<open>
  The loop over the periods, giving \<open>standardized_data_by_period\<close>: a period with an
  empty bag is skipped, and so is one whose standardized dict is empty.
\<close>

fun standardize_periods :: "(period \<times> bag) list \<Rightarrow> pyexc + (period \<times> (string \<times> real) list) list" where
  "standardize_periods [] = Inr []"
| "standardize_periods ((period_str, raw) # rest) =
     (if raw = [] then standardize_periods rest
      else (case standardize_items raw FINANCIAL_ITEM_MAPPING of
              Inl e \<Rightarrow> Inl e
            | Inr d \<Rightarrow>
                (case standardize_periods rest of
                   Inl e \<Rightarrow> Inl e
                 | Inr ds \<Rightarrow> Inr (if d = [] then ds else (period_str, d) # ds))))"

text \<open>
  \<open>DataFrame.from_dict(..., orient='index')\<close>, \<open>sort_index(ascending=False)\<close> and the
  transposition: one column per period, latest first, over the standard keys that
  some period has, in the order they first occur; a cell that no dict fills is NaN.
\<close>

definition item_index :: "(period \<times> (string \<times> real) list) list \<Rightarrow> string list" where
  "item_index ds = rev (remdups (rev (concat (map (\<lambda>(p, d). map fst d) ds))))"

definition final_df :: "(period \<times> (string \<times> real) list) list \<Rightarrow> matrix" where
  "final_df ds =
     map (\<lambda>(p, d). (p, map (\<lambda>k. (k, map_of d k)) (item_index ds))) (rev (sort_key fst ds))"

definition no_table :: "string \<times> raw_table option \<Rightarrow> bool" where
  "no_table entry = (case snd entry of None \<Rightarrow> True | Some df \<Rightarrow> df_empty (table_columns df))"

definition standardize_statements :: "statements option \<Rightarrow> pyexc + matrix option" where
  "standardize_statements statements =
     (case statements of
        None \<Rightarrow> Inr None
      | Some stmts \<Rightarrow>
          (if stmts = [] \<or> list_all no_table stmts then Inr None
           else (let all_period_data = merge_statements stmts []
                 in if all_period_data = [] then Inr None
                    else (case standardize_periods all_period_data of
                            Inl e \<Rightarrow> Inl e
                          | Inr standardized_data_by_period \<Rightarrow>
                              (if standardized_data_by_period = [] then Inr None
                               else Inr (Some (final_df standardized_data_by_period)))))))"

section \<open>Example inputs\<close>

text \<open>\<open>period_data is None\<close>, or an empty dict or Series: the input validation rejects it.\<close>

fun empty_input :: "period_input \<Rightarrow> bool" where
  "empty_input NoInput = True"
| "empty_input (DictInput d) = (d = [])"
| "empty_input (SeriesInput s) = (s = [])"

text \<open>Change in cash 100 against flows that sum to 90, and 100000 against 96000.\<close>

definition cf_small :: series where
  "cf_small =
     [(''change_in_cash'', PVal (SFloat 100)), (''operating_cash_flow'', PVal (SFloat 50)),
      (''investing_cash_flow'', PVal (SFloat 30)), (''financing_cash_flow'', PVal (SFloat 10))]"

definition cf_large :: series where
  "cf_large =
     [(''change_in_cash'', PVal (SFloat 100000)), (''operating_cash_flow'', PVal (SFloat 50000)),
      (''investing_cash_flow'', PVal (SFloat 40000)), (''financing_cash_flow'', PVal (SFloat 6000))]"

text \<open>The value \<open>_get(key)\<close> returns when it returns.\<close>

definition item :: "series \<Rightarrow> string \<Rightarrow> real option" where
  "item period_data key = (case ratios_get period_data key of Inl e \<Rightarrow> None | Inr v \<Rightarrow> v)"

text \<open>Total debt as the specification words it: absent when both components are absent,
  otherwise their sum with an absent component counted as zero.\<close>

definition composite_total_debt_spec :: "real option \<Rightarrow> real option \<Rightarrow> real option" where
  "composite_total_debt_spec short_term long_term =
     (if short_term = None \<and> long_term = None then None
      else Some ((case short_term of None \<Rightarrow> 0 | Some x \<Rightarrow> x)
               + (case long_term of None \<Rightarrow> 0 | Some x \<Rightarrow> x)))"

text \<open>The ratio dict of a period on which the computation does not raise.\<close>

definition ratios_of :: "series \<Rightarrow> ratios" where
  "ratios_of period_data =
     (case calculate_single_period_ratios period_data of Inl e \<Rightarrow> [] | Inr r \<Rightarrow> r)"

text \<open>A period with short-term debt 50 and no long-term debt.\<close>

definition debt_example :: series where
  "debt_example = [(''short_term_debt'', PVal (SFloat 50)), (''total_equity'', PVal (SFloat 100)),
     (''total_assets'', PVal (SFloat 200))]"

text \<open>A period with neither debt item.\<close>

definition no_debt_example :: series where
  "no_debt_example = [(''total_equity'', PVal (SFloat 100)), (''total_assets'', PVal (SFloat 200))]"

text \<open>A matrix of two periods; the older column holds no number at all.\<close>

definition hist_example :: matrix where
  "hist_example =
     [(20231231, [(''revenue'', Some 200), (''net_income'', Some 50)]),
      (20221231, [(''revenue'', None), (''net_income'', None)])]"

text \<open>The ratio dict of one column of a float matrix.\<close>

definition column_ratios :: "(string \<times> real option) list \<Rightarrow> ratios" where
  "column_ratios col =
     (case calculate_single_period_ratios (series_of_column col) of Inl e \<Rightarrow> [] | Inr r \<Rightarrow> r)"





text \<open>Two statements that emit the same vendor label for the same period, 100 in the first
  processed and 200 in the second.\<close>

definition dup_statements :: statements where
  "dup_statements =
     [(''income'', Some \<lparr>datetime_columns = True,
         table_columns = [(Some 20231231, [(''Total Revenue'', PVal (SFloat 100))])]\<rparr>),
      (''balance'', Some \<lparr>datetime_columns = True,
         table_columns = [(Some 20231231, [(''Total Revenue'', PVal (SFloat 200))])]\<rparr>)]"

text \<open>
  Every standard key of a raw bag is scanned without an exception and is left without
  a value.
\<close>

definition unresolved_bag :: "bag \<Rightarrow> bool" where
  "unresolved_bag raw =
     list_all (\<lambda>(k, syns). standardize_key raw syns = Inr None) FINANCIAL_ITEM_MAPPING"

text \<open>A column with at least one cell that is not NaN.\<close>

definition has_number :: "(string \<times> real option) list \<Rightarrow> bool" where
  "has_number col = list_ex (\<lambda>(k, c). case c of None \<Rightarrow> False | Some x \<Rightarrow> True) col"

text \<open>Three statements that are \<open>None\<close> or empty.\<close>

definition absent_statements :: statements where
  "absent_statements =
     [(''income'', None),
      (''balance'', Some \<lparr>datetime_columns = True, table_columns = []\<rparr>),
      (''cashflow'', None)]"

text \<open>A statement whose only label is in no synonym list.\<close>

definition unmapped_statements :: statements where
  "unmapped_statements =
     [(''income'', Some \<lparr>datetime_columns = True,
         table_columns = [(Some 20231231, [(''Unmapped Label'', PVal (SFloat 1))])]\<rparr>)]"

text \<open>A statement with one period and one label that resolves.\<close>

definition single_statement :: statements where
  "single_statement =
     [(''income'', Some \<lparr>datetime_columns = True,
         table_columns = [(Some 20231231, [(''Total Revenue'', PVal (SFloat 100))])]\<rparr>)]"

text \<open>A period with revenue 0, net income 100 and total assets 400.\<close>

definition zero_revenue_example :: series where
  "zero_revenue_example =
     [(''revenue'', PVal (SFloat 0)), (''net_income'', PVal (SFloat 100)),
      (''total_assets'', PVal (SFloat 400))]"

text \<open>
  No standard key gets a value from a raw bag: for each key the scan finds no label, or
  \<open>float\<close> rejects the value it finds.
\<close>

definition no_value_bag :: "bag \<Rightarrow> bool" where
  "no_value_bag raw =
     list_all (\<lambda>(k, syns). case standardize_key raw syns of Inr (Some x) \<Rightarrow> False | _ \<Rightarrow> True)
       FINANCIAL_ITEM_MAPPING"

text \<open>An \<open>int\<close> too large for a double, and a statement whose only cell holds it.\<close>

definition huge_int :: int where
  "huge_int = 10 ^ 400"

definition huge_statements :: statements where
  "huge_statements =
     [(''income'', Some \<lparr>datetime_columns = True,
         table_columns = [(Some 20231231, [(''Total Revenue'', PVal (SInt huge_int))])]\<rparr>)]"

section \<open>Properties of the verifier\<close>

text \<open>
  C1, as the specification states it, fails: for \<open>None\<close> the report is the single
  entry \<open>InputValidation\<close>, and none of the six checks has an entry.
\<close>

theorem verify_none_not_six:
  "map fst (verify_financial_consistency NoInput) = [''InputValidation'']
   \<and> length (verify_financial_consistency NoInput) = 1
   \<and> map fst (verify_financial_consistency NoInput) \<noteq> check_names"
  by (simp add: check_names_def)

text \<open>
  C1, amended: for every input that is not \<open>None\<close> and not an empty dict or Series,
  the report has exactly six entries, one for each of the six fixed checks in their
  order, holding the results of the six checks (each value is \<open>Passed\<close>, \<open>Failed\<close>
  or \<open>Skipped\<close> by its type); for \<open>None\<close>, an empty dict and an empty Series it is
  the single entry \<open>InputValidation\<close>, whose value is \<open>Failed\<close> with the message that
  no data was received.
\<close>

theorem verify_entries:
  "map fst (verify_financial_consistency inp) =
     (if empty_input inp then [''InputValidation''] else check_names)
   \<and> length (verify_financial_consistency inp) = (if empty_input inp then 1 else 6)
   \<and> (empty_input inp \<longrightarrow>
        (\<exists>s. verify_financial_consistency inp = [(''InputValidation'', Failed (NoData s))]))
   \<and> (\<not> empty_input inp \<longrightarrow>
        (\<exists>d. (inp = DictInput d \<or> inp = SeriesInput d)
           \<and> verify_financial_consistency inp = run_checks d))"
  by (cases inp) (simp_all add: run_checks_def check_names_def)

theorem verify_entries_witness:
  "map fst (verify_financial_consistency (DictInput [(''cash'', PVal (SFloat 5))])) =
     [''BalanceSheetEq'', ''CashCheck'', ''GrossProfitCheck'',
      ''OperatingIncomeCheck'', ''NetIncomeCheck'', ''CashFlowSumCheck'']
   \<and> length (verify_financial_consistency (DictInput [(''cash'', PVal (SFloat 5))])) = 6
   \<and> verify_financial_consistency (DictInput [(''cash'', PVal (SFloat 5))]) =
       run_checks [(''cash'', PVal (SFloat 5))]
   \<and> verify_financial_consistency (SeriesInput []) =
       [(''InputValidation'', Failed (NoData ''Empty data Series received.''))]
   \<and> verify_financial_consistency (DictInput []) =
       [(''InputValidation'', Failed (NoData ''Empty data dictionary received.''))]
   \<and> verify_financial_consistency NoInput =
       [(''InputValidation'', Failed (NoData ''No data received for period.''))]"
  using verify_entries [of "DictInput [(''cash'', PVal (SFloat 5))]"]
        verify_entries [of "SeriesInput []"] verify_entries [of "DictInput []"]
        verify_entries [of NoInput]
  by (simp add: check_names_def)

text \<open>
  With a relative tolerance that is not negative, \<open>math.isclose\<close> is the comparison
  against the larger of the scaled magnitude and the absolute tolerance.
\<close>

lemma isclose_max:
  "0 \<le> rel_tol \<Longrightarrow>
   isclose a b rel_tol abs_tol = (abs (a - b) \<le> max (rel_tol * max (abs a) (abs b)) abs_tol)"
proof -
  assume r: "0 \<le> rel_tol"
  have m: "rel_tol * max (abs a) (abs b) = max (abs (rel_tol * a)) (abs (rel_tol * b))"
  proof (cases "abs a \<le> abs b")
    case True
    then have "rel_tol * abs a \<le> rel_tol * abs b" using r by (rule mult_left_mono)
    then show ?thesis using True r by (simp add: abs_mult max_def)
  next
    case False
    then have "rel_tol * abs b \<le> rel_tol * abs a" using r by (simp add: mult_left_mono)
    then show ?thesis using False r by (simp add: abs_mult max_def)
  qed
  have nn: "0 \<le> max (abs (rel_tol * a)) (abs (rel_tol * b))" by simp
  have d: "abs (b - a) = abs (a - b)" by (simp add: abs_minus_commute)
  show ?thesis
    unfolding isclose_def Let_def m d using nn by (auto simp: le_max_iff_disj)
qed

lemma report_cash_flow_entry:
  "d \<noteq> [] \<Longrightarrow> inp = DictInput d \<or> inp = SeriesInput d \<Longrightarrow>
   map_of (verify_financial_consistency inp) ''CashFlowSumCheck'' =
     Some (cash_flow_sum_check d)"
  by (auto simp: run_checks_def)

text \<open>
  C7: for a dict or Series that is not empty and in which the four inputs are present,
  the report's cash-flow entry is \<open>Passed\<close>
  exactly when the difference between the change in cash and the sum of the three flows
  is at most the larger of 2% of the larger magnitude and 1000; otherwise it is
  \<open>Failed\<close> with the two values and their difference.
\<close>

theorem cash_flow_sum_tolerance:
  assumes "d \<noteq> []" and "inp = DictInput d \<or> inp = SeriesInput d"
    and "get_float d ''change_in_cash'' = Some cc"
    and "get_float d ''operating_cash_flow'' = Some oc"
    and "get_float d ''investing_cash_flow'' = Some ic"
    and "get_float d ''financing_cash_flow'' = Some fc"
  shows "map_of (verify_financial_consistency inp) ''CashFlowSumCheck'' =
           Some (if abs (cc - (oc + ic + fc))
                      \<le> max (0.02 * max (abs cc) (abs (oc + ic + fc))) 1000
                 then Passed
                 else Failed (Mismatch cc (oc + ic + fc) (cc - (oc + ic + fc))))"
proof -
  have "cash_flow_sum_check d =
          (if isclose cc (oc + ic + fc) 0.02 1000 then Passed
           else Failed (Mismatch cc (oc + ic + fc) (cc - (oc + ic + fc))))"
    using assms(3-6) by (simp add: cash_flow_sum_check_def)
  moreover have "isclose cc (oc + ic + fc) 0.02 1000 =
          (abs (cc - (oc + ic + fc)) \<le> max (0.02 * max (abs cc) (abs (oc + ic + fc))) 1000)"
    by (rule isclose_max) simp
  ultimately show ?thesis
    using report_cash_flow_entry [OF assms(1,2)] by simp
qed

theorem cash_flow_sum_tolerance_witness:
  "map_of (verify_financial_consistency (DictInput cf_small)) ''CashFlowSumCheck'' = Some Passed
   \<and> map_of (verify_financial_consistency (SeriesInput cf_large)) ''CashFlowSumCheck'' =
       Some (Failed (Mismatch 100000 96000 4000))"
proof -
  have s: "cf_small \<noteq> []" and l: "cf_large \<noteq> []"
    by (simp_all add: cf_small_def cf_large_def)
  have gs: "get_float cf_small ''change_in_cash'' = Some 100"
      "get_float cf_small ''operating_cash_flow'' = Some 50"
      "get_float cf_small ''investing_cash_flow'' = Some 30"
      "get_float cf_small ''financing_cash_flow'' = Some 10"
    by (simp_all add: cf_small_def get_float_def series_get_def)
  have gl: "get_float cf_large ''change_in_cash'' = Some 100000"
      "get_float cf_large ''operating_cash_flow'' = Some 50000"
      "get_float cf_large ''investing_cash_flow'' = Some 40000"
      "get_float cf_large ''financing_cash_flow'' = Some 6000"
    by (simp_all add: cf_large_def get_float_def series_get_def)
  show ?thesis
    using cash_flow_sum_tolerance [OF s _ gs, of "DictInput cf_small"]
          cash_flow_sum_tolerance [OF l _ gl, of "SeriesInput cf_large"]
    by simp
qed

section \<open>Properties of the ratio engine\<close>

text \<open>
  The division gives \<open>None\<close> when the numerator is absent, when the denominator is
  absent and when the denominator is exactly zero; otherwise it gives the quotient.
\<close>

lemma safe_division_absent:
  "safe_division None d = None
   \<and> safe_division n None = None
   \<and> safe_division n (Some 0) = None
   \<and> (b \<noteq> 0 \<longrightarrow> safe_division (Some a) (Some b) = Some (a / b))"
  by (cases n) (simp_all add: safe_division_def)

lemma total_debt_spec: "total_debt std ltd = composite_total_debt_spec std ltd"
  by (cases std; cases ltd) (simp_all add: total_debt_def composite_total_debt_spec_def or_zero_def)

lemma cleaned_id: "cleaned v = v"
  by (cases v) (simp_all add: cleaned_def)

lemma huge_revenue_get: "ratios_get [(''revenue'', PVal (SInt (10 ^ 400)))] ''revenue'' = Inl OverflowError"
  by (simp add: ratios_get_def series_get_def)

lemma huge_gross_profit_get: "ratios_get [(''revenue'', PVal (SInt (10 ^ 400)))] ''gross_profit'' = Inr None"
  by (simp add: ratios_get_def series_get_def)

text \<open>
  C4 fails on the code: an \<open>int\<close> too large for a double makes \<open>float\<close> raise
  \<open>OverflowError\<close>, which neither handler of \<open>_get\<close> catches, so the call raises
  instead of returning a dict with an absent entry.
\<close>

theorem huge_int_raises:
  "calculate_single_period_ratios [(''revenue'', PVal (SInt (10 ^ 400)))] = Inl OverflowError"
  unfolding calculate_single_period_ratios_def
  by (simp only: huge_revenue_get huge_gross_profit_get exc_bind_def sum.case)

lemma exc_bind_Inr:
  "exc_bind m f = Inr r \<Longrightarrow> (\<And>x. m = Inr x \<Longrightarrow> f x = Inr r \<Longrightarrow> P) \<Longrightarrow> P"
  by (cases m) (simp_all add: exc_bind_def)

lemma single_period_result:
  assumes "calculate_single_period_ratios d = Inr r"
  shows "r = map (\<lambda>(k, v). (k, cleaned v))
           (compute_ratios (item d ''gross_profit'') (item d ''revenue'') (item d ''net_income'')
              (item d ''operating_income'') (item d ''current_assets'')
              (item d ''current_liabilities'') (item d ''inventory'')
              (item d ''short_term_debt'') (item d ''long_term_debt'') (item d ''total_equity'')
              (item d ''total_liabilities'') (item d ''total_assets'')
              (item d ''cost_of_revenue'') (item d ''accounts_receivable''))"
  using assms unfolding calculate_single_period_ratios_def
  apply (elim exc_bind_Inr)
  apply (simp add: item_def)
  done

text \<open>
  C3: every ratio in the dict returned by \<open>calculate_single_period_ratios\<close> is the
  safe division of its numerator by its denominator, and that division gives \<open>None\<close>
  when the numerator is absent, when the denominator is absent and when the
  denominator is exactly zero (so no infinity, NaN or zero is produced there), and the
  quotient otherwise.
\<close>

theorem ratio_engine_division:
  assumes "calculate_single_period_ratios d = Inr r"
  shows "r =
     [(''Gross Margin'', safe_division (item d ''gross_profit'') (item d ''revenue'')),
      (''Net Margin'', safe_division (item d ''net_income'') (item d ''revenue'')),
      (''Operating Margin'', safe_division (item d ''operating_income'') (item d ''revenue'')),
      (''Current Ratio'',
         safe_division (item d ''current_assets'') (item d ''current_liabilities'')),
      (''Quick Ratio'',
         safe_division (quick_assets_numerator (item d ''current_assets'') (item d ''inventory''))
           (item d ''current_liabilities'')),
      (''Debt to Equity'',
         safe_division (total_debt (item d ''short_term_debt'') (item d ''long_term_debt''))
           (item d ''total_equity'')),
      (''Liabilities to Equity'',
         safe_division (item d ''total_liabilities'') (item d ''total_equity'')),
      (''Debt Ratio'',
         safe_division (total_debt (item d ''short_term_debt'') (item d ''long_term_debt''))
           (item d ''total_assets'')),
      (''Return on Equity (ROE)'', safe_division (item d ''net_income'') (item d ''total_equity'')),
      (''Return on Assets (ROA)'', safe_division (item d ''net_income'') (item d ''total_assets'')),
      (''Return on Capital Employed (ROCE)'',
         safe_division (item d ''operating_income'')
           (capital_employed_denominator (item d ''total_assets'')
              (item d ''current_liabilities''))),
      (''Inventory Turnover'', safe_division (item d ''cost_of_revenue'') (item d ''inventory'')),
      (''Asset Turnover'', safe_division (item d ''revenue'') (item d ''total_assets'')),
      (''Receivable Turnover'',
         safe_division (item d ''revenue'') (item d ''accounts_receivable''))]
   \<and> (\<forall>n dn. safe_division None dn = None \<and> safe_division n None = None
          \<and> safe_division n (Some 0) = None)
   \<and> (\<forall>a b. b \<noteq> 0 \<longrightarrow> safe_division (Some a) (Some b) = Some (a / b))"
proof -
  have div: "(\<forall>n dn. safe_division None dn = None \<and> safe_division n None = None
          \<and> safe_division n (Some 0) = None)
       \<and> (\<forall>a b. b \<noteq> 0 \<longrightarrow> safe_division (Some a) (Some b) = Some (a / b))"
    by (auto simp: safe_division_def split: option.splits)
  show ?thesis
    unfolding single_period_result [OF assms] compute_ratios_def
    using div by (simp add: cleaned_id)
qed

lemma zero_revenue_runs:
  "calculate_single_period_ratios zero_revenue_example = Inr (ratios_of zero_revenue_example)"
  by (simp add: ratios_of_def calculate_single_period_ratios_def exc_bind_def ratios_get_def
        series_get_def zero_revenue_example_def)

theorem ratio_engine_division_witness:
  "map_of (ratios_of zero_revenue_example) ''Net Margin'' = Some None
   \<and> map_of (ratios_of zero_revenue_example) ''Gross Margin'' = Some None
   \<and> map_of (ratios_of zero_revenue_example) ''Return on Equity (ROE)'' = Some None
   \<and> map_of (ratios_of zero_revenue_example) ''Return on Assets (ROA)'' = Some (Some (1 / 4))
   \<and> length (ratios_of zero_revenue_example) = 14"
proof -
  have a: "item zero_revenue_example ''revenue'' = Some 0"
      "item zero_revenue_example ''net_income'' = Some 100"
      "item zero_revenue_example ''total_assets'' = Some 400"
      "item zero_revenue_example ''gross_profit'' = None"
      "item zero_revenue_example ''total_equity'' = None"
    by (simp_all add: item_def ratios_get_def series_get_def zero_revenue_example_def)
  from ratio_engine_division [OF zero_revenue_runs]
  have r: "ratios_of zero_revenue_example =
     [(''Gross Margin'', safe_division (item zero_revenue_example ''gross_profit'') (item zero_revenue_example ''revenue'')),
      (''Net Margin'', safe_division (item zero_revenue_example ''net_income'') (item zero_revenue_example ''revenue'')),
      (''Operating Margin'', safe_division (item zero_revenue_example ''operating_income'') (item zero_revenue_example ''revenue'')),
      (''Current Ratio'',
         safe_division (item zero_revenue_example ''current_assets'') (item zero_revenue_example ''current_liabilities'')),
      (''Quick Ratio'',
         safe_division (quick_assets_numerator (item zero_revenue_example ''current_assets'') (item zero_revenue_example ''inventory''))
           (item zero_revenue_example ''current_liabilities'')),
      (''Debt to Equity'',
         safe_division (total_debt (item zero_revenue_example ''short_term_debt'') (item zero_revenue_example ''long_term_debt''))
           (item zero_revenue_example ''total_equity'')),
      (''Liabilities to Equity'',
         safe_division (item zero_revenue_example ''total_liabilities'') (item zero_revenue_example ''total_equity'')),
      (''Debt Ratio'',
         safe_division (total_debt (item zero_revenue_example ''short_term_debt'') (item zero_revenue_example ''long_term_debt''))
           (item zero_revenue_example ''total_assets'')),
      (''Return on Equity (ROE)'', safe_division (item zero_revenue_example ''net_income'') (item zero_revenue_example ''total_equity'')),
      (''Return on Assets (ROA)'', safe_division (item zero_revenue_example ''net_income'') (item zero_revenue_example ''total_assets'')),
      (''Return on Capital Employed (ROCE)'',
         safe_division (item zero_revenue_example ''operating_income'')
           (capital_employed_denominator (item zero_revenue_example ''total_assets'')
              (item zero_revenue_example ''current_liabilities''))),
      (''Inventory Turnover'', safe_division (item zero_revenue_example ''cost_of_revenue'') (item zero_revenue_example ''inventory'')),
      (''Asset Turnover'', safe_division (item zero_revenue_example ''revenue'') (item zero_revenue_example ''total_assets'')),
      (''Receivable Turnover'',
         safe_division (item zero_revenue_example ''revenue'') (item zero_revenue_example ''accounts_receivable''))]"
    and z: "\<And>n. safe_division n (Some 0) = None"
    and n: "\<And>dn. safe_division None dn = None" "\<And>n. safe_division n None = None"
    and q: "\<And>a b. b \<noteq> 0 \<Longrightarrow> safe_division (Some a) (Some b) = Some (a / b)"
    by blast+
  show ?thesis
    unfolding r by (simp add: a z n q)
qed

text \<open>
  C6: in the dict returned, Debt to Equity and Debt Ratio are the safe divisions of the
  composite total debt, which is as the specification words it, by total equity and by
  total assets.
\<close>

theorem total_debt_composite:
  assumes "calculate_single_period_ratios d = Inr r"
  shows "map_of r ''Debt to Equity'' =
           Some (safe_division
                   (composite_total_debt_spec (item d ''short_term_debt'') (item d ''long_term_debt''))
                   (item d ''total_equity''))
       \<and> map_of r ''Debt Ratio'' =
           Some (safe_division
                   (composite_total_debt_spec (item d ''short_term_debt'') (item d ''long_term_debt''))
                   (item d ''total_assets''))"
  unfolding single_period_result [OF assms] compute_ratios_def
  by (simp add: cleaned_id total_debt_spec)

lemma debt_example_runs:
  "calculate_single_period_ratios debt_example = Inr (ratios_of debt_example)"
  "calculate_single_period_ratios no_debt_example = Inr (ratios_of no_debt_example)"
  by (simp_all add: ratios_of_def calculate_single_period_ratios_def exc_bind_def ratios_get_def
        series_get_def debt_example_def no_debt_example_def)

theorem total_debt_composite_witness:
  "map_of (ratios_of debt_example) ''Debt to Equity'' = Some (Some (1 / 2))
   \<and> map_of (ratios_of debt_example) ''Debt Ratio'' = Some (Some (1 / 4))
   \<and> map_of (ratios_of no_debt_example) ''Debt to Equity'' = Some None
   \<and> map_of (ratios_of no_debt_example) ''Debt Ratio'' = Some None"
proof -
  have a: "item debt_example ''short_term_debt'' = Some 50"
      "item debt_example ''long_term_debt'' = None"
      "item debt_example ''total_equity'' = Some 100"
      "item debt_example ''total_assets'' = Some 200"
    by (simp_all add: item_def ratios_get_def series_get_def debt_example_def)
  have b: "item no_debt_example ''short_term_debt'' = None"
      "item no_debt_example ''long_term_debt'' = None"
      "item no_debt_example ''total_equity'' = Some 100"
      "item no_debt_example ''total_assets'' = Some 200"
    by (simp_all add: item_def ratios_get_def series_get_def no_debt_example_def)
  show ?thesis
    using total_debt_composite [OF debt_example_runs(1)]
          total_debt_composite [OF debt_example_runs(2)]
    by (simp add: a b composite_total_debt_spec_def safe_division_def)
qed

lemma ratios_get_column:
  "ratios_get (series_of_column col) key =
     Inr (case map_of col key of Some (Some x) \<Rightarrow> Some x | _ \<Rightarrow> None)"
proof -
  have "map_of (series_of_column col) key =
          map_option (\<lambda>c. case c of None \<Rightarrow> PNaN | Some x \<Rightarrow> PVal (SFloat x)) (map_of col key)"
    unfolding series_of_column_def by (induction col) auto
  then show ?thesis
    by (simp add: ratios_get_def series_get_def split: option.splits)
qed

lemma column_runs:
  "calculate_single_period_ratios (series_of_column col) = Inr (column_ratios col)"
  and column_ratios_length: "length (column_ratios col) = 14"
  by (simp_all add: column_ratios_def calculate_single_period_ratios_def ratios_get_column
        exc_bind_def compute_ratios_def)

lemma ratios_by_period_fold:
  "ratios_by_period m acc =
     Inr (fold (\<lambda>(p, col). AList.update p (column_ratios col)) m acc)"
proof (induction m arbitrary: acc)
  case Nil
  show ?case by simp
next
  case (Cons c m)
  obtain p col where c: "c = (p, col)" by (cases c)
  have ne: "column_ratios col \<noteq> []"
    using column_ratios_length [of col] by auto
  show ?case
    by (simp add: c column_runs ne Cons.IH)
qed

lemma map_of_fold_update:
  "distinct (map fst m) \<Longrightarrow>
   map_of (fold (\<lambda>(p, col). AList.update p (f col)) m acc) q =
     (case map_of m q of Some col \<Rightarrow> Some (f col) | None \<Rightarrow> map_of acc q)"
proof (induction m arbitrary: acc)
  case Nil
  show ?case by simp
next
  case (Cons c m)
  obtain p col where c: "c = (p, col)" by (cases c)
  from Cons.prems have d: "distinct (map fst m)" and np: "map_of m p = None"
    by (auto simp: c map_of_eq_None_iff)
  show ?case
    using np by (simp add: c Cons.IH [OF d] update_conv split: option.splits)
qed

text \<open>
  C9: on a matrix that is not empty and whose period labels are distinct, the
  multi-period entry returns a matrix, its columns are the input's labels in the input's
  order, and the column of each label is the single-period result on that column, a
  dict of fourteen entries, also when all of them are absent.
\<close>

theorem historical_ratios_columns:
  assumes "\<not> df_empty m" and "distinct (map fst m)"
  shows "calculate_historical_ratios (Some m) =
           Inr (Some (map (\<lambda>(p, col). (p, column_ratios col)) m))
       \<and> map fst (map (\<lambda>(p, col). (p, column_ratios col)) m) = map fst m
       \<and> list_all (\<lambda>(p, col).
            calculate_single_period_ratios (series_of_column col) = Inr (column_ratios col)
            \<and> length (column_ratios col) = 14) m"
proof -
  define al where "al = fold (\<lambda>(p, col). AList.update p (column_ratios col)) m []"
  have run: "ratios_by_period m [] = Inr al"
    by (simp add: al_def ratios_by_period_fold)
  have look: "map_of al q = (case map_of m q of Some col \<Rightarrow> Some (column_ratios col) | None \<Rightarrow> None)"
    for q
    unfolding al_def using map_of_fold_update [OF assms(2), of column_ratios "[]" q]
    by (simp split: option.splits)
  have entry: "map_of al p = Some (column_ratios col)" if "(p, col) \<in> set m" for p col
    using that assms(2) by (simp add: look)
  from assms(1) obtain p0 col0 rest where m: "m = (p0, col0) # rest"
    by (cases m) (auto simp: df_empty_def)
  have "map_of al p0 = Some (column_ratios col0)"
    by (rule entry) (simp add: m)
  then have ne: "al \<noteq> []" by auto
  have re: "reindex_columns al (map fst m) = map (\<lambda>(p, col). (p, column_ratios col)) m"
    unfolding reindex_columns_def using entry by (auto simp: comp_def)
  have one: "calculate_historical_ratios (Some m) =
           Inr (Some (map (\<lambda>(p, col). (p, column_ratios col)) m))"
    using assms(1) by (simp add: calculate_historical_ratios_def run ne re)
  have two: "map fst (map (\<lambda>(p, col). (p, column_ratios col)) m) = map fst m"
    by (induction m) auto
  have three: "list_all (\<lambda>(p, col).
            calculate_single_period_ratios (series_of_column col) = Inr (column_ratios col)
            \<and> length (column_ratios col) = 14) m"
    by (simp add: list_all_iff column_runs column_ratios_length split_beta)
  from one two three show ?thesis by simp
qed

lemma hist_example_ok: "\<not> df_empty hist_example" "distinct (map fst hist_example)"
  by (simp_all add: hist_example_def df_empty_def)

theorem historical_ratios_columns_witness:
  "map_option (map fst) (projr (calculate_historical_ratios (Some hist_example))) =
     Some [20231231, 20221231]
   \<and> map_option (map (\<lambda>c. map_of (snd c) ''Net Margin''))
        (projr (calculate_historical_ratios (Some hist_example))) =
     Some [Some (Some (1 / 4)), Some None]"
proof -
  have a: "column_ratios [(''revenue'', Some 200), (''net_income'', Some 50)] =
             map (\<lambda>(k, v). (k, cleaned v))
               (compute_ratios None (Some 200) (Some 50) None None None None None None None
                  None None None None)"
    by (simp add: column_ratios_def calculate_single_period_ratios_def ratios_get_column
          exc_bind_def)
  have b: "column_ratios [(''revenue'', None), (''net_income'', None)] =
             map (\<lambda>(k, v). (k, cleaned v))
               (compute_ratios None None None None None None None None None None
                  None None None None)"
    by (simp add: column_ratios_def calculate_single_period_ratios_def ratios_get_column
          exc_bind_def)
  show ?thesis
    using historical_ratios_columns [OF hist_example_ok]
    by (simp add: hist_example_def a b compute_ratios_def cleaned_def safe_division_def)
qed

section \<open>Properties of the normalizer\<close>

















text \<open>
  C2 fails on the code: the store \<open>raw[yf_key] = value_raw\<close> overwrites, so for a
  label that two statements emit for the same period the bag keeps the value of the
  statement processed last.
\<close>

theorem last_statement_wins:
  "merge_statements dup_statements [] = [(20231231, [(''Total Revenue'', SFloat 200)])]
   \<and> standardize_statements (Some dup_statements) =
       Inr (Some [(20231231, [(''revenue'', Some 200)])])"
proof -
  have m: "merge_statements dup_statements [] = [(20231231, [(''Total Revenue'', SFloat 200)])]"
    by (simp add: dup_statements_def df_empty_def)
  have i: "standardize_items [(''Total Revenue'', SFloat 200)] FINANCIAL_ITEM_MAPPING =
             Inr [(''revenue'', 200)]"
    by (simp add: FINANCIAL_ITEM_MAPPING_def standardize_key_def)
  have n: "\<not> list_all no_table dup_statements"
    by (simp add: dup_statements_def no_table_def df_empty_def)
  have ne: "dup_statements \<noteq> []" by (simp add: dup_statements_def)
  show ?thesis
    by (simp add: m standardize_statements_def n ne i final_df_def item_index_def)
qed

lemma standardize_items_unresolved:
  "list_all (\<lambda>(k, syns). standardize_key raw syns = Inr None) mp \<Longrightarrow>
   standardize_items raw mp = Inr []"
  by (induction mp) auto

lemma standardize_periods_unresolved:
  "list_all (\<lambda>(p, raw). unresolved_bag raw) apd \<Longrightarrow> standardize_periods apd = Inr []"
  by (induction apd) (auto simp: unresolved_bag_def standardize_items_unresolved)

lemma standardize_periods_nonempty:
  "standardize_periods apd = Inr ds \<Longrightarrow> (p, d) \<in> set ds \<Longrightarrow> d \<noteq> []"
proof (induction apd arbitrary: ds)
  case Nil
  then show ?case by simp
next
  case (Cons a apd)
  obtain q raw where a: "a = (q, raw)" by (cases a)
  show ?case
  proof (cases "raw = []")
    case True
    with Cons.prems a have "standardize_periods apd = Inr ds" by simp
    from Cons.IH [OF this Cons.prems(2)] show ?thesis .
  next
    case False
    with Cons.prems(1) a obtain d' ds' where
      d': "standardize_items raw FINANCIAL_ITEM_MAPPING = Inr d'"
      and ds': "standardize_periods apd = Inr ds'"
      and ds: "ds = (if d' = [] then ds' else (q, d') # ds')"
      by (auto split: sum.splits)
    show ?thesis
    proof (cases "(p, d) \<in> set ds'")
      case True
      from Cons.IH [OF ds' True] show ?thesis .
    next
      case False
      with Cons.prems(2) ds show ?thesis by (auto split: if_splits)
    qed
  qed
qed

lemma set_item_index: "set (item_index ds) = (\<Union>(p, d)\<in>set ds. fst ` set d)"
  by (auto simp: item_index_def)

lemma final_df_filled:
  assumes "ds \<noteq> []" and "\<And>p d. (p, d) \<in> set ds \<Longrightarrow> d \<noteq> []"
  shows "final_df ds \<noteq> []" and "\<not> df_empty (final_df ds)"
    and "list_all (\<lambda>(p, col). has_number col) (final_df ds)"
proof -
  have len: "length (final_df ds) = length ds" by (simp add: final_df_def)
  with assms(1) show ne: "final_df ds \<noteq> []" by auto
  have col: "has_number (map (\<lambda>k. (k, map_of d k)) (item_index ds))"
    if "(p, d) \<in> set ds" for p d
  proof -
    from assms(2) [OF that] obtain k x where kx: "(k, x) \<in> set d" by (cases d) auto
    then have "k \<in> set (item_index ds)" using that by (force simp: set_item_index)
    moreover have "map_of d k \<noteq> None" using weak_map_of_SomeI [OF kx] by auto
    ultimately show ?thesis
      by (auto simp: has_number_def list_ex_iff split: option.splits)
  qed
  show all: "list_all (\<lambda>(p, col). has_number col) (final_df ds)"
    using col by (auto simp: final_df_def list_all_iff)
  from ne obtain p c rest where f: "final_df ds = (p, c) # rest" by (cases "final_df ds") auto
  with all have "has_number c" by simp
  then have "c \<noteq> []" by (auto simp: has_number_def)
  with f show "\<not> df_empty (final_df ds)" by (simp add: df_empty_def)
qed

text \<open>
  What holds of the null result: \<open>standardize_statements\<close> returns \<open>None\<close> for
  \<open>None\<close>, when every table is \<open>None\<close> or empty, and when every key of every period of
  the merged data is scanned without an exception and left without a value; and a
  matrix it returns is never empty: it has a column, a row, and a number in every
  column.
\<close>

lemma standardize_null_or_data:
  "standardize_statements None = Inr None
   \<and> (list_all no_table stmts \<longrightarrow> standardize_statements (Some stmts) = Inr None)
   \<and> (list_all (\<lambda>(p, raw). unresolved_bag raw) (merge_statements stmts []) \<longrightarrow>
        standardize_statements (Some stmts) = Inr None)
   \<and> (standardize_statements (Some stmts) = Inr (Some m) \<longrightarrow>
        m \<noteq> [] \<and> \<not> df_empty m \<and> list_all (\<lambda>(p, col). has_number col) m)"
proof -
  have one: "standardize_statements None = Inr None"
    by (simp add: standardize_statements_def)
  have two: "standardize_statements (Some stmts) = Inr None" if "list_all no_table stmts"
    using that by (simp add: standardize_statements_def)
  have three: "standardize_statements (Some stmts) = Inr None"
    if "list_all (\<lambda>(p, raw). unresolved_bag raw) (merge_statements stmts [])"
    using standardize_periods_unresolved [OF that]
    by (simp add: standardize_statements_def Let_def)
  have four: "m \<noteq> [] \<and> \<not> df_empty m \<and> list_all (\<lambda>(p, col). has_number col) m"
    if r: "standardize_statements (Some stmts) = Inr (Some m)"
  proof -
    from r obtain ds where ds: "standardize_periods (merge_statements stmts []) = Inr ds"
      and ne: "ds \<noteq> []" and m: "m = final_df ds"
      by (auto simp: standardize_statements_def Let_def split: if_splits sum.splits)
    have "d \<noteq> []" if "(p, d) \<in> set ds" for p d
      using ds that by (rule standardize_periods_nonempty)
    from final_df_filled [OF ne this] show ?thesis by (simp add: m)
  qed
  from one two three four show ?thesis by blast
qed

lemma single_statement_result:
  "standardize_statements (Some single_statement) =
     Inr (Some [(20231231, [(''revenue'', Some 100)])])"
proof -
  have m: "merge_statements single_statement [] = [(20231231, [(''Total Revenue'', SFloat 100)])]"
    by (simp add: single_statement_def df_empty_def)
  have i: "standardize_items [(''Total Revenue'', SFloat 100)] FINANCIAL_ITEM_MAPPING =
             Inr [(''revenue'', 100)]"
    by (simp add: FINANCIAL_ITEM_MAPPING_def standardize_key_def)
  have n: "\<not> list_all no_table single_statement"
    by (simp add: single_statement_def no_table_def df_empty_def)
  have ne: "single_statement \<noteq> []" by (simp add: single_statement_def)
  show ?thesis
    by (simp add: m standardize_statements_def n ne i final_df_def item_index_def)
qed

lemma unmapped_unresolved:
  "list_all (\<lambda>(p, raw). unresolved_bag raw) (merge_statements unmapped_statements [])"
proof -
  have m: "merge_statements unmapped_statements [] = [(20231231, [(''Unmapped Label'', SFloat 1)])]"
    by (simp add: unmapped_statements_def df_empty_def)
  show ?thesis
    unfolding m by (simp add: unresolved_bag_def FINANCIAL_ITEM_MAPPING_def standardize_key_def)
qed

lemma standardize_null_or_data_examples:
  "standardize_statements (Some absent_statements) = Inr None
   \<and> standardize_statements (Some unmapped_statements) = Inr None
   \<and> standardize_statements (Some single_statement) =
       Inr (Some [(20231231, [(''revenue'', Some 100)])])
   \<and> \<not> df_empty [(20231231::nat, [(''revenue'', Some (100::real))])]
   \<and> has_number [(''revenue'', Some 100)]"
proof -
  have a: "list_all no_table absent_statements"
    by (simp add: absent_statements_def no_table_def df_empty_def)
  from standardize_null_or_data [of absent_statements] a
  have 1: "standardize_statements (Some absent_statements) = Inr None" by blast
  from standardize_null_or_data [of unmapped_statements] unmapped_unresolved
  have 2: "standardize_statements (Some unmapped_statements) = Inr None" by blast
  from standardize_null_or_data [of single_statement "[(20231231, [(''revenue'', Some 100)])]"]
    single_statement_result
  have 3: "\<not> df_empty [(20231231::nat, [(''revenue'', Some (100::real))])]
     \<and> list_all (\<lambda>(p, col). has_number col) [(20231231::nat, [(''revenue'', Some (100::real))])]"
    by blast
  from 1 2 3 single_statement_result show ?thesis by simp
qed

lemma huge_int_float: "py_float (SInt huge_int) = Inl OverflowError"
  by (simp add: huge_int_def)

lemma huge_revenue_key:
  "standardize_key [(''Total Revenue'', SInt huge_int)]
     [''Total Revenue'', ''Revenue'', ''totalRevenue''] = Inl OverflowError"
  by (simp add: standardize_key_def huge_int_float del: py_float.simps)

lemma huge_other_key:
  "''Total Revenue'' \<notin> set syns \<Longrightarrow>
   standardize_key [(''Total Revenue'', SInt huge_int)] syns = Inr None"
  by (induction syns) (auto simp: standardize_key_def)

lemma huge_bag_items:
  "standardize_items [(''Total Revenue'', SInt huge_int)] FINANCIAL_ITEM_MAPPING =
     Inl OverflowError"
  unfolding FINANCIAL_ITEM_MAPPING_def
  by (simp add: huge_revenue_key del: py_float.simps)

lemma huge_bag_no_value: "no_value_bag [(''Total Revenue'', SInt huge_int)]"
  unfolding no_value_bag_def FINANCIAL_ITEM_MAPPING_def
  by (simp add: huge_revenue_key huge_other_key del: py_float.simps)

text \<open>
  C8 fails on the code: for a statement whose only cell is an \<open>int\<close> too large for a
  double, no standard key gets a value in any period, and \<open>standardize_statements\<close>
  raises \<open>OverflowError\<close>, which the handler of the conversion does not catch,
  instead of returning \<open>None\<close>.
\<close>

theorem huge_cell_raises:
  "merge_statements huge_statements [] = [(20231231, [(''Total Revenue'', SInt huge_int)])]
   \<and> no_value_bag [(''Total Revenue'', SInt huge_int)]
   \<and> standardize_statements (Some huge_statements) = Inl OverflowError"
proof -
  have m: "merge_statements huge_statements [] =
             [(20231231, [(''Total Revenue'', SInt huge_int)])]"
    by (simp add: huge_statements_def df_empty_def)
  have n: "\<not> list_all no_table huge_statements"
    by (simp add: huge_statements_def no_table_def df_empty_def)
  have ne: "huge_statements \<noteq> []" by (simp add: huge_statements_def)
  have s: "standardize_statements (Some huge_statements) = Inl OverflowError"
    by (simp add: m standardize_statements_def n ne huge_bag_items)
  from m huge_bag_no_value s show ?thesis by simp
qed

end
